theory Spec2Isabelle
  imports Main "HOL-Library.Word" "HOL-Library.Signed_Division"
begin

section \<open>The Arrow stream writer of arrow/ipc/writer.go\<close>

text \<open>
  A shallow embedding of \<^verbatim>\<open>arrow/ipc/writer.go\<close>: the stream writer (\<^verbatim>\<open>swriter\<close>,
  \<^verbatim>\<open>Writer\<close>), the record encoder (\<^verbatim>\<open>recordEncoder\<close>) and the two buffer helpers
  \<^verbatim>\<open>newTruncatedBitmap\<close> and \<^verbatim>\<open>needTruncate\<close>.

  A Go function of this file can end in three ways: it returns normally, it returns a
  non-nil \<^verbatim>\<open>error\<close>, or it panics. All three are values of the model. Go's \<^verbatim>\<open>int\<close> and
  \<^verbatim>\<open>int64\<close> are modelled as \<open>int\<close>. The quantities are lengths, offsets and byte counts
  of arrays held in memory; the model takes the sums and products the file forms of them
  to stay in the 64-bit range and leaves wrap-around out.
\<close>

subsection \<open>Errors, panics and results\<close>

type_synonym byte = "8 word"

datatype error =
    errInconsistentSchema
  | errMaxRecursion
  | errBigArray
  | SinkError string
  | Wrap error string


datatype panic =
    NotImplemented
  | NotImplementedOffset int
  | NotAligned
  | UnknownArray
  | NilDereference
  | IndexOutOfRange
  | SliceOutOfRange

datatype fault = Err error | Panic panic

datatype 'a res = Ok 'a | Fail fault

text \<open>\<^verbatim>\<open>errors.Wrap(err, msg)\<close> on the error path of a call; a panic passes through a
  caller unchanged. The message of a \<^verbatim>\<open>Wrapf\<close> is its format string; the arguments are
  left out.\<close>

fun wrap :: "fault \<Rightarrow> string \<Rightarrow> fault" where
  "wrap (Err e) m = Err (Wrap e m)"
| "wrap (Panic x) m = Panic x"

text \<open>\<^verbatim>\<open>xs[i]\<close> on a Go slice: a run-time panic outside \<open>0 \<le> i < len(xs)\<close>.\<close>

definition index :: "'a list \<Rightarrow> int \<Rightarrow> 'a res" where
  "index xs i =
     (if 0 \<le> i \<and> i < int (length xs) then Ok (xs ! nat i)
      else Fail (Panic IndexOutOfRange))"

subsection \<open>Buffers and arrays (packages memory and array)\<close>

text \<open>
  Modelled from the spec: \<^verbatim>\<open>memory.Buffer\<close>, declared outside this file, ``a
  reference-counted contiguous byte region'' with \<^verbatim>\<open>retain\<close>, \<^verbatim>\<open>release\<close>, a byte length
  and a byte view. A \<^verbatim>\<open>*memory.Buffer\<close> is a \<open>Buffer option\<close>, \<open>None\<close> the nil
  pointer; \<open>addr\<close> is the identity of the buffer. The reference counts themselves belong
  to package memory: the model records the calls the file makes on them as a trace of
  events, from which the balance of a buffer is computed (\<open>refcount\<close>).
\<close>

record Buffer =
  addr :: nat
  Bytes :: "byte list"

record Data =
  Offset :: int
  Len :: int
  NullN :: int
  Buffers :: "Buffer option list"

text \<open>
  An \<^verbatim>\<open>array.Interface\<close> value, by the type its \<^verbatim>\<open>DataType()\<close> has in the type switch
  of \<^verbatim>\<open>visit\<close>. \<open>Data\<close> holds what \<^verbatim>\<open>arr.Data()\<close>, \<^verbatim>\<open>arr.Len()\<close> and \<^verbatim>\<open>arr.NullN()\<close>
  return. The other arguments are what the accessors of package array, which is outside
  this file, return for the node:
  \<^item> \<open>FixedWidthDataType d bw\<close>: \<^verbatim>\<open>dtype.BitWidth()\<close>;
  \<^item> \<open>BinaryType d vb\<close>: \<^verbatim>\<open>arr.ValueBytes()\<close>;
  \<^item> \<open>StringType d vo\<close>: \<^verbatim>\<open>arr.ValueOffset(i)\<close>;
  \<^item> \<open>StructType d fs\<close>: the fields, \<^verbatim>\<open>arr.Field(0)\<close> to \<^verbatim>\<open>arr.Field(arr.NumField()-1)\<close>;
  \<^item> \<open>ListType d offs vals sl\<close> and \<open>FixedSizeListType d offs vals sl\<close>:
    \<^verbatim>\<open>arr.Offsets()\<close>, \<^verbatim>\<open>arr.ListValues()\<close>, and the array that
    \<^verbatim>\<open>array.NewSlice(values, values_offset, values_length)\<close> returns for the range this
    node designates (\<open>None\<close>: \<^verbatim>\<open>NewSlice\<close> panics on that range);
  \<^item> \<open>OtherType d\<close>: a type outside the switch.
\<close>

datatype array =
    NullType Data
  | BooleanType Data
  | FixedWidthDataType Data int
  | BinaryType Data "byte list"
  | StringType Data "int \<Rightarrow> int"
  | StructType Data "array list"
  | ListType Data "int list" array "array option"
  | FixedSizeListType Data "int list" array "array option"
  | OtherType Data

fun Data_of :: "array \<Rightarrow> Data" where
  "Data_of (NullType d) = d"
| "Data_of (BooleanType d) = d"
| "Data_of (FixedWidthDataType d bw) = d"
| "Data_of (BinaryType d vb) = d"
| "Data_of (StringType d vo) = d"
| "Data_of (StructType d fs) = d"
| "Data_of (ListType d offs vals sl) = d"
| "Data_of (FixedSizeListType d offs vals sl) = d"
| "Data_of (OtherType d) = d"

datatype event =
    Retain nat
  | Release nat
  | NewSlice array
  | ReleaseSlice array

text \<open>A method called through a nil \<^verbatim>\<open>*memory.Buffer\<close> reads a field of its receiver: a
  nil dereference.\<close>

definition Buffer_Len :: "Buffer option \<Rightarrow> int res" where
  "Buffer_Len buf =
     (case buf of None \<Rightarrow> Fail (Panic NilDereference)
      | Some b \<Rightarrow> Ok (int (length (Bytes b))))"

definition Buffer_Retain :: "Buffer option \<Rightarrow> event list \<Rightarrow> unit res \<times> event list" where
  "Buffer_Retain buf tr =
     (case buf of None \<Rightarrow> (Fail (Panic NilDereference), tr)
      | Some b \<Rightarrow> (Ok (), tr @ [Retain (addr b)]))"



subsection \<open>Alignment helpers and constants declared outside the file\<close>

text \<open>
  Modelled from the spec: \<^verbatim>\<open>bitutil.CeilByte64\<close>, \<^verbatim>\<open>bitutil.IsMultipleOf8\<close>,
  \<^verbatim>\<open>bitutil.BytesForBits\<close> and \<^verbatim>\<open>paddedLength\<close>, the ``pure helpers computing padded
  length to a fixed alignment boundary (8 bytes) and bit-count-to-byte-count
  conversion''.
\<close>

definition CeilByte64 :: "int \<Rightarrow> int" where
  "CeilByte64 n = ((n + 7) div 8) * 8"

definition IsMultipleOf8 :: "int \<Rightarrow> bool" where
  "IsMultipleOf8 v = (v mod 8 = 0)"

definition BytesForBits :: "int \<Rightarrow> int" where
  "BytesForBits bits = (bits + 7) div 8"

definition paddedLength :: "int \<Rightarrow> int \<Rightarrow> int" where
  "paddedLength nbytes alignment = ((nbytes + alignment - 1) div alignment) * alignment"

definition MaxInt32 :: int where
  "MaxInt32 = 2147483647"

record fieldMetadata =
  fm_Len :: int
  fm_Nulls :: int
  fm_Offset :: int

record bufferMetadata =
  bm_Offset :: int
  bm_Len :: int

datatype MessageType = MessageSchema | MessageRecordBatch

text \<open>The \<^verbatim>\<open>payload\<close> struct (declared outside the file): message kind, header buffer,
  body buffers, body size.\<close>

record payload =
  p_msg :: MessageType
  p_meta :: "Buffer option"
  p_body :: "Buffer option list"
  p_size :: int

text \<open>
  Modelled from the spec: \<^verbatim>\<open>arrow.Schema\<close> with \<^verbatim>\<open>structuralEquals\<close>. A schema is the
  list of its fields (name, type name, nullable); \<^verbatim>\<open>sc.Equal(o)\<close> on a non-nil receiver
  holds when \<open>o\<close> is non-nil and structurally the same.
\<close>

type_synonym Schema = "(string \<times> string \<times> bool) list"

definition Schema_Equal :: "Schema \<Rightarrow> Schema option \<Rightarrow> bool" where
  "Schema_Equal sc other = (other = Some sc)"

text \<open>An \<^verbatim>\<open>array.Record\<close>: \<^verbatim>\<open>Schema()\<close>, \<^verbatim>\<open>Columns()\<close>, \<^verbatim>\<open>NumRows()\<close>.\<close>

record Record =
  rec_Schema :: "Schema option"
  rec_Columns :: "array list"
  rec_NumRows :: int

text \<open>
  What the file takes from the rest of package ipc and from its caller, as parameters:
  the constants \<^verbatim>\<open>kArrowAlignment\<close>, \<^verbatim>\<open>kMaxNestingDepth\<close> and \<^verbatim>\<open>kEOS\<close>, the serialisers
  \<^verbatim>\<open>writeRecordMessage\<close> and \<^verbatim>\<open>payloadsFromSchema\<close>, and the \<^verbatim>\<open>Write\<close> method of the
  \<^verbatim>\<open>io.Writer\<close> the stream goes to. \<open>'s\<close> is the state of that sink; \<open>io_Write s p\<close>
  returns the count and error of \<^verbatim>\<open>Write(p)\<close> and the sink afterwards.
\<close>

record 's ext =
  kArrowAlignment :: int
  kMaxNestingDepth :: int
  kEOS :: "byte list"
  writeRecordMessage :: "int \<Rightarrow> int \<Rightarrow> fieldMetadata list \<Rightarrow> bufferMetadata list \<Rightarrow> Buffer option"
  payloadsFromSchema :: "Schema option \<Rightarrow> payload list"
  io_Write :: "'s \<Rightarrow> byte list \<Rightarrow> (int \<times> error option) \<times> 's"

subsection \<open>needTruncate, newTruncatedBitmap\<close>

text \<open>Lines 418-423. The disjunction is Go's \<^verbatim>\<open>||\<close>: \<^verbatim>\<open>buf.Len()\<close> is read on a non-nil
  buffer only.\<close>

definition needTruncate :: "int \<Rightarrow> Buffer option \<Rightarrow> int \<Rightarrow> bool" where
  "needTruncate offset buf minLength =
     (case buf of None \<Rightarrow> False
      | Some b \<Rightarrow> offset \<noteq> 0 \<or> minLength < int (length (Bytes b)))"

text \<open>Lines 401-416. The guard of line 402 is \<^verbatim>\<open>input != nil\<close>; below it \<^verbatim>\<open>||\<close> evaluates
  \<^verbatim>\<open>input.Len()\<close> only when \<^verbatim>\<open>offset != 0\<close> is false.\<close>

definition newTruncatedBitmap ::
  "'s ext \<Rightarrow> event list \<Rightarrow> int \<Rightarrow> int \<Rightarrow> Buffer option \<Rightarrow> Buffer option res \<times> event list" where
  "newTruncatedBitmap X tr offset len input =
     (if input \<noteq> None then
        (case Buffer_Retain input tr of
           (Fail f, tr') \<Rightarrow> (Fail f, tr')
         | (Ok u, tr') \<Rightarrow> (Ok input, tr'))
      else
        (let minLength = paddedLength (BytesForBits len) (kArrowAlignment X) in
         if offset \<noteq> 0 then (Fail (Panic NotImplemented), tr)
         else
           (case Buffer_Len input of
              Fail f \<Rightarrow> (Fail f, tr)
            | Ok n \<Rightarrow>
                if minLength < n then (Fail (Panic NotImplemented), tr)
                else
                  (case Buffer_Retain input tr of
                     (Fail f, tr') \<Rightarrow> (Fail f, tr')
                   | (Ok u, tr') \<Rightarrow> (Ok input, tr')))))"


subsection \<open>The record encoder\<close>

record recordEncoder =
  enc_fields :: "fieldMetadata list"
  enc_meta :: "bufferMetadata list"
  enc_depth :: int
  enc_start :: int
  enc_allow64b :: bool

text \<open>Lines 147-154; the allocator is only passed on.\<close>

definition newRecordEncoder :: "int \<Rightarrow> int \<Rightarrow> bool \<Rightarrow> recordEncoder" where
  "newRecordEncoder startOffset maxDepth allow64b =
     \<lparr>enc_fields = [], enc_meta = [], enc_depth = maxDepth, enc_start = startOffset,
      enc_allow64b = allow64b\<rparr>"

text \<open>
  The state a call of \<^verbatim>\<open>visit\<close> or \<^verbatim>\<open>Encode\<close> works on: the encoder \<^verbatim>\<open>w\<close>, the payload
  \<^verbatim>\<open>p\<close> (both reached through pointers, so a caller sees what a failed call left), and
  the trace of calls on reference counts.
\<close>

record estate =
  enc :: recordEncoder
  pay :: payload
  trace :: "event list"

text \<open>\<^verbatim>\<open>p.body = append(p.body, b)\<close>, \<^verbatim>\<open>w.fields = append(w.fields, f)\<close>,
  \<^verbatim>\<open>w.depth--\<close> and \<^verbatim>\<open>w.depth++\<close>, and a call recorded in the trace.\<close>

definition push_body :: "Buffer option \<Rightarrow> estate \<Rightarrow> estate" where
  "push_body b st = st\<lparr>pay := (pay st)\<lparr>p_body := p_body (pay st) @ [b]\<rparr>\<rparr>"

definition push_field :: "fieldMetadata \<Rightarrow> estate \<Rightarrow> estate" where
  "push_field f st = st\<lparr>enc := (enc st)\<lparr>enc_fields := enc_fields (enc st) @ [f]\<rparr>\<rparr>"

definition add_depth :: "int \<Rightarrow> estate \<Rightarrow> estate" where
  "add_depth k st = st\<lparr>enc := (enc st)\<lparr>enc_depth := enc_depth (enc st) + k\<rparr>\<rparr>"

definition emit :: "event \<Rightarrow> estate \<Rightarrow> estate" where
  "emit ev st = st\<lparr>trace := trace st @ [ev]\<rparr>"

definition retain :: "Buffer option \<Rightarrow> estate \<Rightarrow> unit res \<times> estate" where
  "retain buf st =
     (case Buffer_Retain buf (trace st) of (r, tr) \<Rightarrow> (r, st\<lparr>trace := tr\<rparr>))"

text \<open>Lines 384-394. \<^verbatim>\<open>data.Buffers()[1]\<close> is read before the offset is tested.\<close>

definition getZeroBasedValueOffsets :: "estate \<Rightarrow> array \<Rightarrow> Buffer option res \<times> estate" where
  "getZeroBasedValueOffsets st arr =
     (let data = Data_of arr in
      case index (Buffers data) 1 of
        Fail f \<Rightarrow> (Fail f, st)
      | Ok voffsets \<Rightarrow>
          if Offset data \<noteq> 0 then (Fail (Panic (NotImplementedOffset (Offset data))), st)
          else
            (case retain voffsets st of
               (Fail f, st') \<Rightarrow> (Fail f, st')
             | (Ok u, st') \<Rightarrow> (Ok voffsets, st')))"

text \<open>Lines 213-220: the validity slot.\<close>

definition visit_validity :: "'s ext \<Rightarrow> estate \<Rightarrow> array \<Rightarrow> unit res \<times> estate" where
  "visit_validity X st arr =
     (if NullN (Data_of arr) = 0 then (Ok (), push_body None st)
      else
        (let data = Data_of arr in
         case index (Buffers data) 0 of
           Fail f \<Rightarrow> (Fail f, st)
         | Ok b0 \<Rightarrow>
             (case newTruncatedBitmap X (trace st) (Offset data) (Len data) b0 of
                (Fail f, tr) \<Rightarrow> (Fail f, st\<lparr>trace := tr\<rparr>)
              | (Ok bitmap, tr) \<Rightarrow> (Ok (), push_body bitmap (st\<lparr>trace := tr\<rparr>)))))"

text \<open>Lines 198-220: the depth check, the length check, the field metadata and the
  validity slot.\<close>

definition visit_prologue :: "'s ext \<Rightarrow> estate \<Rightarrow> array \<Rightarrow> unit res \<times> estate" where
  "visit_prologue X st arr =
     (if enc_depth (enc st) \<le> 0 then (Fail (Err errMaxRecursion), st)
      else if \<not> enc_allow64b (enc st) \<and> Len (Data_of arr) > MaxInt32
        then (Fail (Err errBigArray), st)
      else
        visit_validity X
          (push_field \<lparr>fm_Len = Len (Data_of arr), fm_Nulls = NullN (Data_of arr),
             fm_Offset = 0\<rparr> st) arr)"

text \<open>Lines 226-228, \<^verbatim>\<open>case *arrow.BooleanType\<close>.\<close>

definition visit_Boolean :: "'s ext \<Rightarrow> estate \<Rightarrow> Data \<Rightarrow> unit res \<times> estate" where
  "visit_Boolean X st data =
     (case index (Buffers data) 1 of
        Fail f \<Rightarrow> (Fail f, st)
      | Ok b1 \<Rightarrow>
          (case newTruncatedBitmap X (trace st) (Offset data) (Len data) b1 of
             (Fail f, tr) \<Rightarrow> (Fail f, st\<lparr>trace := tr\<rparr>)
           | (Ok bitmap, tr) \<Rightarrow> (Ok (), push_body bitmap (st\<lparr>trace := tr\<rparr>))))"

text \<open>Lines 236-242 and their copies at 258-263 and 281-286: the value buffer is retained
  unless it needs truncating, which is not implemented.\<close>

definition retain_values :: "estate \<Rightarrow> int \<Rightarrow> Buffer option \<Rightarrow> int \<Rightarrow> unit res \<times> estate" where
  "retain_values st offset values minLength =
     (if needTruncate offset values minLength then (Fail (Panic NotImplemented), st)
      else retain values st)"

text \<open>Lines 230-242, \<^verbatim>\<open>case arrow.FixedWidthDataType\<close>. \<^verbatim>\<open>sdiv\<close> is Go's integer
  division, which truncates towards zero.\<close>

definition visit_FixedWidth :: "'s ext \<Rightarrow> estate \<Rightarrow> Data \<Rightarrow> int \<Rightarrow> unit res \<times> estate" where
  "visit_FixedWidth X st data bw =
     (case index (Buffers data) 1 of
        Fail f \<Rightarrow> (Fail f, st)
      | Ok values \<Rightarrow>
          (let typeWidth = bw sdiv 8;
               minLength = paddedLength (Len data * typeWidth) (kArrowAlignment X) in
           case retain_values st (Offset data) values minLength of
             (Fail f, st') \<Rightarrow> (Fail f, st')
           | (Ok u, st') \<Rightarrow> (Ok (), push_body values st')))"

text \<open>Lines 244-265 (\<^verbatim>\<open>*arrow.BinaryType\<close>) and 267-288 (\<^verbatim>\<open>*arrow.StringType\<close>): the two
  cases differ in \<^verbatim>\<open>totalDataBytes\<close> only, which \<open>nbytes\<close> stands for.\<close>

definition visit_varlen :: "estate \<Rightarrow> array \<Rightarrow> int \<Rightarrow> string \<Rightarrow> unit res \<times> estate" where
  "visit_varlen st arr nbytes msg =
     (case getZeroBasedValueOffsets st arr of
        (Fail f, st1) \<Rightarrow> (Fail (wrap f msg), st1)
      | (Ok voffsets, st1) \<Rightarrow>
          (let data = Data_of arr in
           case index (Buffers data) 2 of
             Fail f \<Rightarrow> (Fail f, st1)
           | Ok values \<Rightarrow>
               (let totalDataBytes = (if voffsets \<noteq> None then nbytes else 0) in
                case retain_values st1 (Offset data) values totalDataBytes of
                  (Fail f, st2) \<Rightarrow> (Fail f, st2)
                | (Ok u, st2) \<Rightarrow> (Ok (), push_body values (push_body voffsets st2)))))"

text \<open>Lines 302-331 and 340-369, the same text for \<^verbatim>\<open>*arrow.ListType\<close> and
  \<^verbatim>\<open>*arrow.FixedSizeListType\<close>: the offsets buffer is pushed, the depth decremented, and
  the condition of line 327 (365) decides whether the values are sliced. The result is
  that decision.\<close>

definition visit_list_begin ::
  "estate \<Rightarrow> array \<Rightarrow> int list \<Rightarrow> array \<Rightarrow> bool res \<times> estate" where
  "visit_list_begin st arr offs vals =
     (case getZeroBasedValueOffsets st arr of
        (Fail f, st1) \<Rightarrow>
          (Fail (wrap f ''could not retrieve zero-based value offsets for array %T''), st1)
      | (Ok voffsets, st1) \<Rightarrow>
          (let st2 = add_depth (- 1) (push_body voffsets st1) in
           if voffsets \<noteq> None then
             (case index offs 0 of
                Fail f \<Rightarrow> (Fail f, st2)
              | Ok values_offset \<Rightarrow>
                  (case index offs (Len (Data_of arr)) of
                     Fail f \<Rightarrow> (Fail f, st2)
                   | Ok values_end \<Rightarrow>
                       (let values_length = values_end - values_offset in
                        (Ok (length offs \<noteq> 0 \<or> values_length < Len (Data_of vals)), st2))))
           else (Ok (length offs \<noteq> 0 \<or> 0 < Len (Data_of vals)), st2)))"

text \<open>Lines 316-320 and 334-337 (354-358 and 372-375): what follows the recursive visit.
  The deferred function runs on every way out of \<^verbatim>\<open>visit\<close>, a panic included, and
  releases \<^verbatim>\<open>values\<close> when \<^verbatim>\<open>mustRelease\<close> is set.\<close>

definition visit_list_end :: "bool \<Rightarrow> array \<Rightarrow> unit res \<times> estate \<Rightarrow> unit res \<times> estate" where
  "visit_list_end mustRelease values rs =
     (case rs of
        (Fail f, st) \<Rightarrow>
          (Fail (wrap f ''could not visit list element for array %T''),
           if mustRelease then emit (ReleaseSlice values) st else st)
      | (Ok u, st) \<Rightarrow>
          (Ok (),
           if mustRelease then emit (ReleaseSlice values) (add_depth 1 st)
           else add_depth 1 st))"

text \<open>Lines 197-382. \<open>visit_fields\<close> is the loop of lines 293-298 over the fields of a
  struct.\<close>

fun visit :: "'s ext \<Rightarrow> estate \<Rightarrow> array \<Rightarrow> unit res \<times> estate"
and visit_fields :: "'s ext \<Rightarrow> estate \<Rightarrow> array list \<Rightarrow> unit res \<times> estate" where
  "visit X st arr =
     (case visit_prologue X st arr of
        (Fail f, st1) \<Rightarrow> (Fail f, st1)
      | (Ok u, st1) \<Rightarrow>
          (case arr of
             NullType d \<Rightarrow> (Ok (), push_body None st1)
           | BooleanType d \<Rightarrow> visit_Boolean X st1 d
           | FixedWidthDataType d bw \<Rightarrow> visit_FixedWidth X st1 d bw
           | BinaryType d vb \<Rightarrow>
               visit_varlen st1 arr (int (length vb))
                 ''could not retrieve zero-based value offsets from %T''
           | StringType d vo \<Rightarrow>
               visit_varlen st1 arr (vo (Len d) - vo 0)
                 ''could not retrieve zero-based value offsets from %T''
           | StructType d fs \<Rightarrow>
               (case visit_fields X (add_depth (- 1) st1) fs of
                  (Fail f, st2) \<Rightarrow> (Fail f, st2)
                | (Ok u, st2) \<Rightarrow> (Ok (), add_depth 1 st2))
           | ListType d offs vals sl \<Rightarrow>
               (case visit_list_begin st1 arr offs vals of
                  (Fail f, st2) \<Rightarrow> (Fail f, st2)
                | (Ok mustSlice, st2) \<Rightarrow>
                    if mustSlice then
                      (case sl of
                         None \<Rightarrow> (Fail (Panic SliceOutOfRange), st2)
                       | Some s \<Rightarrow> visit_list_end True s (visit X (emit (NewSlice s) st2) s))
                    else visit_list_end False vals (visit X st2 vals))
           | FixedSizeListType d offs vals sl \<Rightarrow>
               (case visit_list_begin st1 arr offs vals of
                  (Fail f, st2) \<Rightarrow> (Fail f, st2)
                | (Ok mustSlice, st2) \<Rightarrow>
                    if mustSlice then
                      (case sl of
                         None \<Rightarrow> (Fail (Panic SliceOutOfRange), st2)
                       | Some s \<Rightarrow> visit_list_end True s (visit X (emit (NewSlice s) st2) s))
                    else visit_list_end False vals (visit X st2 vals))
           | OtherType d \<Rightarrow> (Fail (Panic UnknownArray), st1)))"
| "visit_fields X st [] = (Ok (), st)"
| "visit_fields X st (fld # flds) =
     (case visit X st fld of
        (Fail f, st') \<Rightarrow> (Fail (wrap f ''could not visit field %d of struct-array''), st')
      | (Ok u, st') \<Rightarrow> visit_fields X st' flds)"

text \<open>Lines 159-164: the columns, in order.\<close>

fun visit_columns :: "'s ext \<Rightarrow> estate \<Rightarrow> array list \<Rightarrow> unit res \<times> estate" where
  "visit_columns X st [] = (Ok (), st)"
| "visit_columns X st (col # cols) =
     (case visit X st col of
        (Fail f, st') \<Rightarrow> (Fail (wrap f ''arrow/ipc: could not encode column %d (%q)''), st')
      | (Ok u, st') \<Rightarrow> visit_columns X st' cols)"

text \<open>Lines 172-187: the metadata of the body buffers from the running \<open>offset\<close>, and
  the offset after the last buffer.\<close>

fun buffer_metadata :: "int \<Rightarrow> Buffer option list \<Rightarrow> bufferMetadata list \<times> int" where
  "buffer_metadata offset [] = ([], offset)"
| "buffer_metadata offset (buf # bufs) =
     (let size = (case buf of None \<Rightarrow> 0 | Some b \<Rightarrow> int (length (Bytes b)));
          padding = (case buf of None \<Rightarrow> 0 | Some b \<Rightarrow> CeilByte64 size - size);
          (ms, final) = buffer_metadata (offset + (size + padding)) bufs
      in (\<lparr>bm_Offset = offset, bm_Len = size + padding\<rparr> # ms, final))"

text \<open>Lines 396-399.\<close>

definition encodeMetadata :: "'s ext \<Rightarrow> estate \<Rightarrow> int \<Rightarrow> unit res \<times> estate" where
  "encodeMetadata X st nrows =
     (Ok (),
      st\<lparr>pay := (pay st)\<lparr>p_meta :=
        writeRecordMessage X nrows (p_size (pay st)) (enc_fields (enc st))
          (enc_meta (enc st))\<rparr>\<rparr>)"

text \<open>Lines 156-195.\<close>

definition Encode :: "'s ext \<Rightarrow> estate \<Rightarrow> Record \<Rightarrow> unit res \<times> estate" where
  "Encode X st rec =
     (case visit_columns X st (rec_Columns rec) of
        (Fail f, st1) \<Rightarrow> (Fail f, st1)
      | (Ok u, st1) \<Rightarrow>
          (case buffer_metadata (enc_start (enc st1)) (p_body (pay st1)) of
             (ms, offset) \<Rightarrow>
               (let st2 = st1\<lparr>enc := (enc st1)\<lparr>enc_meta := ms\<rparr>\<rparr>;
                    st3 = st2\<lparr>pay := (pay st2)\<lparr>p_size := offset - enc_start (enc st2)\<rparr>\<rparr>
                in if \<not> IsMultipleOf8 (p_size (pay st3)) then (Fail (Panic NotAligned), st3)
                   else encodeMetadata X st3 (rec_NumRows rec))))"

subsection \<open>The stream writer\<close>

text \<open>
  Modelled from the spec: the payload's release, ``which releases every retained body
  buffer'' (\<^verbatim>\<open>payload.Release\<close> and \<^verbatim>\<open>payloads.Release\<close> are declared outside the file).
\<close>

fun release_all :: "Buffer option list \<Rightarrow> event list \<Rightarrow> event list" where
  "release_all [] tr = tr"
| "release_all (None # bufs) tr = release_all bufs tr"
| "release_all (Some b # bufs) tr = release_all bufs (tr @ [Release (addr b)])"

definition payload_Release :: "payload \<Rightarrow> event list \<Rightarrow> event list" where
  "payload_Release p tr = release_all (p_body p) tr"

fun payloads_Release :: "payload list \<Rightarrow> event list \<Rightarrow> event list" where
  "payloads_Release [] tr = tr"
| "payloads_Release (p # ps) tr = payloads_Release ps (payload_Release p tr)"

text \<open>
  The \<^verbatim>\<open>swriter\<close> (lines 31-54). Its field \<^verbatim>\<open>w\<close> is the \<^verbatim>\<open>io.Writer\<close> the \<^verbatim>\<open>Writer\<close> was
  made with: one sink, reached from both structs. The model keeps the state of the sink
  in the \<open>Writer\<close> and hands it to the methods of the \<open>swriter\<close>.
\<close>

record swriter =
  sw_pos :: int

record 's Writer =
  wr_sink :: 's
  wr_pw :: "swriter option"
  wr_started :: bool
  wr_schema :: "Schema option"

text \<open>Lines 68-76; the schema is the one of the options.\<close>

definition NewWriter :: "'s \<Rightarrow> Schema option \<Rightarrow> 's Writer" where
  "NewWriter snk sc =
     \<lparr>wr_sink = snk, wr_pw = Some \<lparr>sw_pos = 0\<rparr>, wr_started = False, wr_schema = sc\<rparr>"

text \<open>Lines 50-54.\<close>

definition swriter_Write ::
  "'s ext \<Rightarrow> swriter \<Rightarrow> 's \<Rightarrow> byte list \<Rightarrow> (int \<times> error option) \<times> swriter \<times> 's" where
  "swriter_Write X sw s bs =
     (case io_Write X s bs of
        ((n, err), s') \<Rightarrow> ((n, err), sw\<lparr>sw_pos := sw_pos sw + n\<rparr>, s'))"

text \<open>Lines 37-40.\<close>

definition swriter_Close :: "'s ext \<Rightarrow> swriter \<Rightarrow> 's \<Rightarrow> error option \<times> swriter \<times> 's" where
  "swriter_Close X sw s =
     (case swriter_Write X sw s (kEOS X) of ((n, err), sw', s') \<Rightarrow> (err, sw', s'))"

text \<open>
  Modelled from the spec: \<^verbatim>\<open>writeIPCPayload\<close>, declared outside the file, which ``writes
  the payload's header then its body buffers (each padded to 8-byte alignment) to the
  sink''. Each piece is one \<^verbatim>\<open>Write\<close> on the \<open>swriter\<close>; the first error ends the call.
\<close>

definition payload_chunks :: "payload \<Rightarrow> byte list list" where
  "payload_chunks p =
     (case p_meta p of None \<Rightarrow> [] | Some m \<Rightarrow> [Bytes m]) @
     concat (map (\<lambda>buf. case buf of None \<Rightarrow> []
        | Some b \<Rightarrow>
            [Bytes b @
             replicate (nat (CeilByte64 (int (length (Bytes b))) - int (length (Bytes b)))) 0])
       (p_body p))"

fun write_chunks ::
  "'s ext \<Rightarrow> swriter \<Rightarrow> 's \<Rightarrow> byte list list \<Rightarrow> error option \<times> swriter \<times> 's" where
  "write_chunks X sw s [] = (None, sw, s)"
| "write_chunks X sw s (c # cs) =
     (case swriter_Write X sw s c of
        ((n, Some err), sw', s') \<Rightarrow> (Some err, sw', s')
      | ((n, None), sw', s') \<Rightarrow> write_chunks X sw' s' cs)"

definition writeIPCPayload ::
  "'s ext \<Rightarrow> swriter \<Rightarrow> 's \<Rightarrow> payload \<Rightarrow> error option \<times> swriter \<times> 's" where
  "writeIPCPayload X sw s p = write_chunks X sw s (payload_chunks p)"

text \<open>Lines 42-48.\<close>

definition swriter_write ::
  "'s ext \<Rightarrow> swriter \<Rightarrow> 's \<Rightarrow> payload \<Rightarrow> error option \<times> swriter \<times> 's" where
  "swriter_write X sw s p =
     (case writeIPCPayload X sw s p of
        (Some err, sw', s') \<Rightarrow> (Some err, sw', s')
      | (None, sw', s') \<Rightarrow> (None, sw', s'))"

text \<open>Lines 78-90. A nil \<^verbatim>\<open>w.pw\<close> is \<open>None\<close>.\<close>

definition Writer_Close :: "'s ext \<Rightarrow> 's Writer \<Rightarrow> unit res \<times> 's Writer" where
  "Writer_Close X wr =
     (case wr_pw wr of
        None \<Rightarrow> (Ok (), wr)
      | Some sw \<Rightarrow>
          (case swriter_Close X sw (wr_sink wr) of
             (Some err, sw', s') \<Rightarrow>
               (Fail (Err (Wrap err ''arrow/ipc: could not close payload writer'')),
                wr\<lparr>wr_sink := s', wr_pw := Some sw'\<rparr>)
           | (None, sw', s') \<Rightarrow> (Ok (), wr\<lparr>wr_sink := s', wr_pw := None\<rparr>)))"

text \<open>Lines 126-131: \<^verbatim>\<open>w.pw.write(data)\<close> for each schema payload. A method call on the nil
  interface value \<^verbatim>\<open>w.pw\<close> is a nil dereference.\<close>

fun start_loop :: "'s ext \<Rightarrow> 's Writer \<Rightarrow> payload list \<Rightarrow> unit res \<times> 's Writer" where
  "start_loop X wr [] = (Ok (), wr)"
| "start_loop X wr (data # ps) =
     (case wr_pw wr of
        None \<Rightarrow> (Fail (Panic NilDereference), wr)
      | Some sw \<Rightarrow>
          (case swriter_write X sw (wr_sink wr) data of
             (Some err, sw', s') \<Rightarrow> (Fail (Err err), wr\<lparr>wr_sink := s', wr_pw := Some sw'\<rparr>)
           | (None, sw', s') \<Rightarrow> start_loop X (wr\<lparr>wr_sink := s', wr_pw := Some sw'\<rparr>) ps))"

text \<open>Lines 119-134; the deferred \<^verbatim>\<open>ps.Release()\<close> runs on every way out.\<close>

definition Writer_start ::
  "'s ext \<Rightarrow> 's Writer \<Rightarrow> event list \<Rightarrow> unit res \<times> 's Writer \<times> event list" where
  "Writer_start X wr tr =
     (let wr1 = wr\<lparr>wr_started := True\<rparr>;
          ps = payloadsFromSchema X (wr_schema wr1)
      in case start_loop X wr1 ps of (r, wr2) \<Rightarrow> (r, wr2, payloads_Release ps tr))"

text \<open>Lines 92-117; the deferred \<^verbatim>\<open>data.Release()\<close> runs on every way out after line
  110.\<close>

definition Writer_Write ::
  "'s ext \<Rightarrow> 's Writer \<Rightarrow> Record \<Rightarrow> event list \<Rightarrow> unit res \<times> 's Writer \<times> event list" where
  "Writer_Write X wr rec tr =
     (case (if \<not> wr_started wr then Writer_start X wr tr else (Ok (), wr, tr)) of
        (Fail f, wr1, tr1) \<Rightarrow> (Fail f, wr1, tr1)
      | (Ok u, wr1, tr1) \<Rightarrow>
          (case rec_Schema rec of
             None \<Rightarrow> (Fail (Err errInconsistentSchema), wr1, tr1)
           | Some sc \<Rightarrow>
               if \<not> Schema_Equal sc (wr_schema wr1)
               then (Fail (Err errInconsistentSchema), wr1, tr1)
               else
                 (let data = \<lparr>p_msg = MessageRecordBatch, p_meta = None, p_body = [],
                               p_size = 0\<rparr>;
                      e = newRecordEncoder 0 (kMaxNestingDepth X) True
                  in case Encode X \<lparr>enc = e, pay = data, trace = tr1\<rparr> rec of
                       (Fail f, st) \<Rightarrow>
                         (Fail (wrap f ''arrow/ipc: could not encode record to payload''),
                          wr1, payload_Release (pay st) (trace st))
                     | (Ok u, st) \<Rightarrow>
                         (case wr_pw wr1 of
                            None \<Rightarrow>
                              (Fail (Panic NilDereference), wr1,
                               payload_Release (pay st) (trace st))
                          | Some sw \<Rightarrow>
                              (case swriter_write X sw (wr_sink wr1) (pay st) of
                                 (Some err, sw', s') \<Rightarrow>
                                   (Fail (Err err), wr1\<lparr>wr_sink := s', wr_pw := Some sw'\<rparr>,
                                    payload_Release (pay st) (trace st))
                               | (None, sw', s') \<Rightarrow>
                                   (Ok (), wr1\<lparr>wr_sink := s', wr_pw := Some sw'\<rparr>,
                                    payload_Release (pay st) (trace st)))))))"

subsection \<open>Notions used to state the properties\<close>

text \<open>
  None of the following is code of the file. \<open>padded_size\<close> is the length a body buffer
  takes in the payload; \<open>leaf_node\<close> and \<open>list_node\<close> name the cases of the type
  switch; \<open>grows\<close> says that a call only appended to the trace, left as many slices
  alive as it found, and kept the \<^verbatim>\<open>allow64b\<close> flag.
\<close>

definition padded_size :: "Buffer option \<Rightarrow> int" where
  "padded_size buf = (case buf of None \<Rightarrow> 0 | Some b \<Rightarrow> CeilByte64 (int (length (Bytes b))))"




text \<open>
  The nesting of an array: the number of nodes on its longest path from the root, a list
  counting its values. A slice is a view of the values it was cut from and has their
  type, hence their nesting: \<open>slices_keep_nesting\<close> states this of the slices an array
  carries.
\<close>

fun nesting :: "array \<Rightarrow> nat" where
  "nesting (StructType d fs) = Suc (foldr max (map nesting fs) 0)"
| "nesting (ListType d offs vals sl) = Suc (nesting vals)"
| "nesting (FixedSizeListType d offs vals sl) = Suc (nesting vals)"
| "nesting (NullType d) = 1"
| "nesting (BooleanType d) = 1"
| "nesting (FixedWidthDataType d bw) = 1"
| "nesting (BinaryType d vb) = 1"
| "nesting (StringType d vo) = 1"
| "nesting (OtherType d) = 1"




subsection \<open>Example inputs\<close>

text \<open>A sink that keeps every byte it is given, as a \<^verbatim>\<open>bytes.Buffer\<close> does, and a sink
  that refuses every write.\<close>

definition mem_Write :: "byte list \<Rightarrow> byte list \<Rightarrow> (int \<times> error option) \<times> byte list" where
  "mem_Write s bs = ((int (length bs), None), s @ bs)"

definition broken_Write :: "byte list \<Rightarrow> byte list \<Rightarrow> (int \<times> error option) \<times> byte list" where
  "broken_Write s bs = ((0, Some (SinkError ''closed'')), s)"

definition schema_payload :: payload where
  "schema_payload =
     \<lparr>p_msg = MessageSchema, p_meta = Some \<lparr>addr = 100, Bytes = [16, 0, 0, 0]\<rparr>,
      p_body = [], p_size = 0\<rparr>"

text \<open>An environment with an 8-byte alignment, a depth bound of 2, a four-byte end
  marker and one schema payload.\<close>

definition ext0 :: "byte list ext" where
  "ext0 =
     \<lparr>kArrowAlignment = 8, kMaxNestingDepth = 2, kEOS = [0, 0, 0, 0],
      writeRecordMessage = (\<lambda>nrows sz fs ms. Some \<lparr>addr = 101, Bytes = [20, 0, 0, 0]\<rparr>),
      payloadsFromSchema = (\<lambda>sc. [schema_payload]),
      io_Write = mem_Write\<rparr>"

text \<open>A sink that refuses its first write and keeps every byte after that (the flag
  says whether a write was seen), and the same environment over it.\<close>

definition flaky_Write ::
  "bool \<times> byte list \<Rightarrow> byte list \<Rightarrow> (int \<times> error option) \<times> (bool \<times> byte list)" where
  "flaky_Write s bs =
     (if fst s then ((int (length bs), None), (True, snd s @ bs))
      else ((0, Some (SinkError ''busy'')), (True, snd s)))"

definition ext1 :: "(bool \<times> byte list) ext" where
  "ext1 =
     \<lparr>kArrowAlignment = 8, kMaxNestingDepth = 2, kEOS = [0, 0, 0, 0],
      writeRecordMessage = (\<lambda>nrows sz fs ms. Some \<lparr>addr = 101, Bytes = [20, 0, 0, 0]\<rparr>),
      payloadsFromSchema = (\<lambda>sc. [schema_payload]),
      io_Write = flaky_Write\<rparr>"

definition zeros :: "nat \<Rightarrow> nat \<Rightarrow> Buffer" where
  "zeros a n = \<lparr>addr = a, Bytes = replicate n 0\<rparr>"

text \<open>The buffer of the little-endian int32 encoding of offsets below 256, and a
  validity bitmap whose bit 4 alone is clear.\<close>

definition offsets_buffer :: "nat \<Rightarrow> nat list \<Rightarrow> Buffer" where
  "offsets_buffer a offs = \<lparr>addr = a, Bytes = concat (map (\<lambda>n. [of_nat n, 0, 0, 0]) offs)\<rparr>"

definition validity_bits :: Buffer where
  "validity_bits = \<lparr>addr = 1, Bytes = [239, 0, 0, 0, 0, 0, 0, 0]\<rparr>"

definition enc_state0 :: estate where
  "enc_state0 =
     \<lparr>enc = newRecordEncoder 0 2 True,
      pay = \<lparr>p_msg = MessageRecordBatch, p_meta = None, p_body = [], p_size = 0\<rparr>,
      trace = []\<rparr>"

text \<open>A binary array of two one-byte values at physical offset \<open>off\<close>, over six
  offsets; an int32 array of \<open>n\<close> values; a list of two elements over two int32 values, its slice the whole of them; the
  same list when \<^verbatim>\<open>NewSlice\<close> panics; a struct; a boolean array cut at offset 3 with one
  null.\<close>

definition offsets_array :: "int \<Rightarrow> array" where
  "offsets_array off =
     BinaryType \<lparr>Offset = off, Len = 2, NullN = 0,
       Buffers = [None, Some (offsets_buffer 1 [0, 1, 2, 3, 4, 5]), Some (zeros 2 6)]\<rparr>
       (replicate 2 0)"

definition int32s :: "nat \<Rightarrow> int \<Rightarrow> array" where
  "int32s a n =
     FixedWidthDataType
       \<lparr>Offset = 0, Len = n, NullN = 0, Buffers = [None, Some (zeros a (nat (4 * n)))]\<rparr> 32"

definition full_list :: array where
  "full_list =
     ListType \<lparr>Offset = 0, Len = 2, NullN = 0, Buffers = [None, Some (offsets_buffer 1 [0, 1, 2])]\<rparr>
       [0, 1, 2] (int32s 2 2) (Some (int32s 2 2))"

definition unsliceable_list :: array where
  "unsliceable_list =
     ListType \<lparr>Offset = 0, Len = 2, NullN = 0, Buffers = [None, Some (offsets_buffer 1 [0, 1, 2])]\<rparr>
       [0, 1, 2] (int32s 2 2) None"

definition struct_of :: "array list \<Rightarrow> array" where
  "struct_of fs = StructType \<lparr>Offset = 0, Len = 2, NullN = 0, Buffers = [None]\<rparr> fs"

definition sliced_bool :: array where
  "sliced_bool =
     BooleanType
       \<lparr>Offset = 3, Len = 5, NullN = 1, Buffers = [Some validity_bits, Some (zeros 2 8)]\<rparr>"

definition schemaA :: Schema where
  "schemaA = [(''a'', ''int32'', False)]"

definition schemaB :: Schema where
  "schemaB = [(''b'', ''utf8'', True)]"

definition empty_record :: "Schema option \<Rightarrow> Record" where
  "empty_record sc = \<lparr>rec_Schema = sc, rec_Columns = [], rec_NumRows = 0\<rparr>"

definition int32_record :: Record where
  "int32_record = \<lparr>rec_Schema = Some schemaA, rec_Columns = [int32s 3 5], rec_NumRows = 5\<rparr>"

definition nested_record :: Record where
  "nested_record =
     \<lparr>rec_Schema = Some schemaA,
      rec_Columns = [full_list, struct_of [struct_of [int32s 2 2]]], rec_NumRows = 2\<rparr>"

definition started_writer :: "byte list Writer" where
  "started_writer =
     \<lparr>wr_sink = [16, 0, 0, 0], wr_pw = Some \<lparr>sw_pos = 4\<rparr>, wr_started = True,
      wr_schema = Some schemaA\<rparr>"

section \<open>Lemmas\<close>

subsection \<open>The stream writer\<close>

lemma start_loop_keeps:
  "start_loop X wr ps = (r, wr') \<Longrightarrow>
     wr_schema wr' = wr_schema wr \<and> wr_started wr' = wr_started wr"
proof (induction ps arbitrary: wr)
  case Nil
  then show ?case by simp
next
  case (Cons p ps)
  then show ?case
    by (auto split: option.splits prod.splits)
qed

lemma start_loop_closed:
  "wr_pw wr = None \<Longrightarrow>
     start_loop X wr ps = (if ps = [] then Ok () else Fail (Panic NilDereference), wr)"
  by (cases ps) simp_all

lemma Writer_start_keeps:
  "Writer_start X wr tr = (r, wr', tr') \<Longrightarrow> wr_schema wr' = wr_schema wr \<and> wr_started wr'"
  by (auto simp: Writer_start_def Let_def split: prod.splits dest!: start_loop_keeps)

lemma Writer_start_closed:
  "wr_pw wr = None \<Longrightarrow> Writer_start X wr tr = (r, wr', tr') \<Longrightarrow>
     wr_sink wr' = wr_sink wr \<and> wr_pw wr' = None"
  by (auto simp: Writer_start_def Let_def start_loop_closed split: prod.splits if_splits)

subsection \<open>Buffer metadata\<close>

lemma CeilByte64_props:
  "CeilByte64 n mod 8 = 0" "n \<le> CeilByte64 n" "CeilByte64 n < n + 8"
  by (simp_all add: CeilByte64_def)

lemma padded_size_mod8: "padded_size buf mod 8 = 0"
  by (cases buf) (simp_all add: padded_size_def CeilByte64_props)

lemma buffer_metadata_Cons:
  "buffer_metadata off (buf # bufs) =
     (\<lparr>bm_Offset = off, bm_Len = padded_size buf\<rparr> #
        fst (buffer_metadata (off + padded_size buf) bufs),
      snd (buffer_metadata (off + padded_size buf) bufs))"
  by (cases buf) (simp_all add: padded_size_def Let_def split: prod.splits)

lemma buffer_metadata_length:
  "length (fst (buffer_metadata off bufs)) = length bufs"
  by (induction bufs arbitrary: off) (simp_all add: buffer_metadata_Cons del: buffer_metadata.simps(2))

lemma buffer_metadata_final:
  "snd (buffer_metadata off bufs) = off + sum_list (map bm_Len (fst (buffer_metadata off bufs)))"
  by (induction bufs arbitrary: off) (simp_all add: buffer_metadata_Cons del: buffer_metadata.simps(2))

lemma buffer_metadata_aligned:
  "sum_list (map bm_Len (fst (buffer_metadata off bufs))) mod 8 = 0"
proof (induction bufs arbitrary: off)
  case Nil
  then show ?case by simp
next
  case (Cons buf bufs)
  have "(padded_size buf +
      sum_list (map bm_Len (fst (buffer_metadata (off + padded_size buf) bufs)))) mod 8 = 0"
    using padded_size_mod8 [of buf] Cons.IH [of "off + padded_size buf"] by presburger
  then show ?case
    by (simp add: buffer_metadata_Cons del: buffer_metadata.simps(2))
qed

lemma buffer_metadata_nth:
  "i < length bufs \<Longrightarrow>
     bm_Len (fst (buffer_metadata off bufs) ! i) = padded_size (bufs ! i) \<and>
     bm_Offset (fst (buffer_metadata off bufs) ! i) =
       off + sum_list (map bm_Len (take i (fst (buffer_metadata off bufs))))"
proof (induction bufs arbitrary: off i)
  case Nil
  then show ?case by simp
next
  case (Cons buf bufs)
  show ?case
  proof (cases i)
    case 0
    then show ?thesis by (simp add: buffer_metadata_Cons del: buffer_metadata.simps(2))
  next
    case (Suc j)
    with Cons.prems have j: "j < length bufs" by simp
    from Cons.IH [OF j, of "off + padded_size buf"] show ?thesis
      using Suc by (simp add: buffer_metadata_Cons del: buffer_metadata.simps(2))
  qed
qed

lemma Encode_Ok:
  assumes "Encode X st rec = (Ok u, st')"
  shows "\<exists>st1. visit_columns X st (rec_Columns rec) = (Ok (), st1) \<and>
     p_body (pay st') = p_body (pay st1) \<and> enc_start (enc st') = enc_start (enc st1) \<and>
     enc_meta (enc st') = fst (buffer_metadata (enc_start (enc st1)) (p_body (pay st1))) \<and>
     p_size (pay st') = snd (buffer_metadata (enc_start (enc st1)) (p_body (pay st1))) - enc_start (enc st1)"
  using assms
  by (auto simp: Encode_def Let_def encodeMetadata_def split: prod.splits res.splits if_splits)

subsection \<open>What each step of visit does to the state\<close>













subsection \<open>The cases of visit, and an induction rule over them\<close>






declare visit.simps [simp del]





subsection \<open>The trace only grows, and slices are released\<close>












subsection \<open>The depth budget\<close>


lemma nesting_pos: "0 < nesting arr"
  by (cases arr) simp_all





subsection \<open>Retained buffers are in the body\<close>










subsection \<open>Columns, Encode and release\<close>





lemma Encode_total:
  assumes "visit_columns X st (rec_Columns rec) = (Ok u, st1)"
  shows "fst (Encode X st rec) = Ok ()"
proof -
  obtain ms off where
    bm: "buffer_metadata (enc_start (enc st1)) (p_body (pay st1)) = (ms, off)"
    by (cases "buffer_metadata (enc_start (enc st1)) (p_body (pay st1))") simp
  have "IsMultipleOf8 (off - enc_start (enc st1))"
    using buffer_metadata_aligned [of "enc_start (enc st1)" "p_body (pay st1)"]
      buffer_metadata_final [of "enc_start (enc st1)" "p_body (pay st1)"] bm
    by (simp add: IsMultipleOf8_def)
  then show ?thesis
    using assms bm by (simp add: Encode_def Let_def encodeMetadata_def)
qed





section \<open>Claims\<close>

lemmas model_defs =
  visit.simps visit_prologue_def visit_validity_def visit_Boolean_def visit_FixedWidth_def
  visit_varlen_def visit_list_begin_def visit_list_end_def getZeroBasedValueOffsets_def
  retain_values_def retain_def needTruncate_def newTruncatedBitmap_def Buffer_Retain_def
  Buffer_Len_def index_def push_body_def push_field_def add_depth_def emit_def
  newRecordEncoder_def paddedLength_def BytesForBits_def CeilByte64_def IsMultipleOf8_def
  MaxInt32_def Encode_def encodeMetadata_def Writer_Write_def Writer_start_def
  Writer_Close_def swriter_Close_def swriter_write_def swriter_Write_def writeIPCPayload_def
  payload_chunks_def payload_Release_def Schema_Equal_def NewWriter_def

lemmas example_defs =
  ext0_def ext1_def mem_Write_def broken_Write_def flaky_Write_def schema_payload_def zeros_def offsets_buffer_def
  validity_bits_def enc_state0_def
  offsets_array_def int32s_def full_list_def unsliceable_list_def struct_of_def sliced_bool_def
  schemaA_def schemaB_def empty_record_def int32_record_def nested_record_def
  started_writer_def

text \<open>
  C1. A \<^verbatim>\<open>Write\<close> of a record whose schema is nil or differs from the bound schema returns
  \<^verbatim>\<open>errInconsistentSchema\<close>. The claim adds that no byte reaches the sink, the first
  \<^verbatim>\<open>Write\<close> included. That fails on the first \<^verbatim>\<open>Write\<close>: line 94 runs \<^verbatim>\<open>start\<close>, which
  writes the schema payloads, before line 101 compares the schemas. On a writer bound to
  \<open>schemaA\<close> and not yet started, a record of \<open>schemaB\<close> is refused, and the sink
  has received the four bytes of the schema payload.
\<close>

theorem Write_first_mismatch_counterexample:
  "\<not> Schema_Equal schemaB (wr_schema (NewWriter [] (Some schemaA))) \<and>
   wr_sink (NewWriter [] (Some schemaA)) = [] \<and>
   Writer_Write ext0 (NewWriter [] (Some schemaA)) (empty_record (Some schemaB)) [] =
     (Fail (Err errInconsistentSchema),
      \<lparr>wr_sink = [16, 0, 0, 0], wr_pw = Some \<lparr>sw_pos = 4\<rparr>, wr_started = True,
        wr_schema = Some schemaA\<rparr>, [])"
  by (simp add: model_defs example_defs)

text \<open>
  C1, amended. On a writer that has started, the call returns \<^verbatim>\<open>errInconsistentSchema\<close>
  and leaves the writer, its sink and the trace as they were. On a writer that has not
  started, the call is \<^verbatim>\<open>start\<close> followed by the comparison: it returns
  \<^verbatim>\<open>errInconsistentSchema\<close> in the state \<^verbatim>\<open>start\<close> left when \<^verbatim>\<open>start\<close> succeeds, and the
  failure of \<^verbatim>\<open>start\<close> otherwise.
\<close>

theorem Write_inconsistent_schema:
  assumes "rec_Schema rec = None \<or>
           (\<exists>sc. rec_Schema rec = Some sc \<and> \<not> Schema_Equal sc (wr_schema wr))"
  shows "(wr_started wr \<longrightarrow>
            Writer_Write X wr rec tr = (Fail (Err errInconsistentSchema), wr, tr)) \<and>
         (\<not> wr_started wr \<longrightarrow>
            (\<forall>wr1 tr1. Writer_start X wr tr = (Ok (), wr1, tr1) \<longrightarrow>
               Writer_Write X wr rec tr = (Fail (Err errInconsistentSchema), wr1, tr1)) \<and>
            (\<forall>f wr1 tr1. Writer_start X wr tr = (Fail f, wr1, tr1) \<longrightarrow>
               Writer_Write X wr rec tr = (Fail f, wr1, tr1)))"
  using assms
  by (auto simp: Writer_Write_def dest: Writer_start_keeps)

theorem Write_inconsistent_schema_witness:
  "rec_Schema (empty_record (Some schemaB)) = Some schemaB \<and>
   \<not> Schema_Equal schemaB (wr_schema started_writer) \<and>
   wr_started started_writer \<and>
   Writer_Write ext0 started_writer (empty_record (Some schemaB)) [] =
     (Fail (Err errInconsistentSchema), started_writer, []) \<and>
   rec_Schema (empty_record None) = None \<and>
   \<not> wr_started (NewWriter [] (Some schemaA)) \<and>
   Writer_start ext0 (NewWriter [] (Some schemaA)) [] = (Ok (), started_writer, []) \<and>
   Writer_Write ext0 (NewWriter [] (Some schemaA)) (empty_record None) [] =
     (Fail (Err errInconsistentSchema), started_writer, []) \<and>
   Writer_start (ext0\<lparr>io_Write := broken_Write\<rparr>) (NewWriter [] (Some schemaA)) [] =
     (Fail (Err (SinkError ''closed'')),
      (NewWriter [] (Some schemaA))\<lparr>wr_started := True\<rparr>, []) \<and>
   Writer_Write (ext0\<lparr>io_Write := broken_Write\<rparr>) (NewWriter [] (Some schemaA))
       (empty_record None) [] =
     (Fail (Err (SinkError ''closed'')),
      (NewWriter [] (Some schemaA))\<lparr>wr_started := True\<rparr>, [])"
proof -
  have a: "rec_Schema (empty_record (Some schemaB)) = None \<or>
      (\<exists>sc. rec_Schema (empty_record (Some schemaB)) = Some sc \<and>
         \<not> Schema_Equal sc (wr_schema started_writer))"
    by (simp add: model_defs example_defs)
  have b: "rec_Schema (empty_record None) = None \<or>
      (\<exists>sc. rec_Schema (empty_record None) = Some sc \<and>
         \<not> Schema_Equal sc (wr_schema (NewWriter [] (Some schemaA))))"
    by (simp add: example_defs)
  have s1: "Writer_start ext0 (NewWriter [] (Some schemaA)) [] = (Ok (), started_writer, [])"
    by (simp add: model_defs example_defs)
  have s2: "Writer_start (ext0\<lparr>io_Write := broken_Write\<rparr>) (NewWriter [] (Some schemaA)) [] =
     (Fail (Err (SinkError ''closed'')),
      (NewWriter [] (Some schemaA))\<lparr>wr_started := True\<rparr>, [])"
    by (simp add: model_defs example_defs)
  show ?thesis
    using Write_inconsistent_schema [OF a, of ext0 "[]"]
      Write_inconsistent_schema [OF b, of ext0 "[]"]
      Write_inconsistent_schema [OF b, of "ext0\<lparr>io_Write := broken_Write\<rparr>" "[]"]
      s1 s2
    by (simp add: example_defs NewWriter_def Schema_Equal_def)
qed

text \<open>
  C2. The validity slot of a visited node. With a null count of 0 the slot is the nil
  placeholder, as claimed. Otherwise the claim sends a node with a nonzero offset, or with
  a validity buffer longer than the padded \<open>ceil(length/8)\<close> bytes, down the copy path.
  The code does not: the guard of line 402 is \<^verbatim>\<open>input != nil\<close>, so every non-nil bitmap is
  retained and returned as it is, and the test of line 409 (with its comment ``with a
  sliced array / non-zero offset, we must copy the bitmap'') is reached for a nil bitmap
  only. On a boolean array cut at offset 3, with one null, both bitmaps enter the body
  unmodified.
\<close>

theorem visit_sliced_bitmap_retained:
  "Offset (Data_of sliced_bool) = 3 \<and> NullN (Data_of sliced_bool) = 1 \<and>
   newTruncatedBitmap ext0 [] 3 5 (Some validity_bits) = (Ok (Some validity_bits), [Retain 1]) \<and>
   visit ext0 enc_state0 sliced_bool =
     (Ok (),
      push_body (Some (zeros 2 8)) (emit (Retain 2)
        (push_body (Some validity_bits) (emit (Retain 1)
          (push_field \<lparr>fm_Len = 5, fm_Nulls = 1, fm_Offset = 0\<rparr> enc_state0)))))"
  by (simp add: model_defs example_defs)




text \<open>
  C4. \<^verbatim>\<open>needTruncate(offset, buffer, minLength)\<close> is false for every nil buffer; for a
  non-nil buffer it is true exactly when the offset is nonzero or the byte length of the
  buffer exceeds the minimum required length.
\<close>

theorem needTruncate_spec:
  "needTruncate offset None minLength = False \<and>
   needTruncate offset (Some b) minLength =
     (offset \<noteq> 0 \<or> minLength < int (length (Bytes b)))"
  by (simp add: needTruncate_def)

theorem needTruncate_witness:
  "\<not> needTruncate 0 None 8 \<and> \<not> needTruncate 3 None 8 \<and>
   needTruncate 3 (Some (zeros 1 8)) 8 \<and>
   needTruncate 0 (Some (zeros 1 16)) 8 \<and>
   \<not> needTruncate 0 (Some (zeros 1 8)) 8"
  using needTruncate_spec [of 0 8 "zeros 1 8"] needTruncate_spec [of 3 8 "zeros 1 8"]
    needTruncate_spec [of 0 8 "zeros 1 16"]
  by (simp add: zeros_def)

text \<open>
  C5. \<^verbatim>\<open>getZeroBasedValueOffsets\<close> on an array that has an offsets buffer (a non-nil buffer
  at index 1): at physical offset 0 it retains that buffer and returns it, the payload and
  the encoder untouched; at a nonzero offset it panics with ``not implemented'' and
  returns nothing.
\<close>

theorem getZeroBasedValueOffsets_spec:
  assumes "index (Buffers (Data_of arr)) 1 = Ok (Some b)"
  shows "(Offset (Data_of arr) = 0 \<longrightarrow>
           getZeroBasedValueOffsets st arr = (Ok (Some b), emit (Retain (addr b)) st)) \<and>
         (Offset (Data_of arr) \<noteq> 0 \<longrightarrow>
           getZeroBasedValueOffsets st arr =
             (Fail (Panic (NotImplementedOffset (Offset (Data_of arr)))), st))"
  using assms
  by (simp add: getZeroBasedValueOffsets_def retain_def Buffer_Retain_def emit_def)

theorem getZeroBasedValueOffsets_witness:
  "index (Buffers (Data_of (offsets_array 0))) 1 = Ok (Some (offsets_buffer 1 [0, 1, 2, 3, 4, 5])) \<and>
   getZeroBasedValueOffsets enc_state0 (offsets_array 0) =
     (Ok (Some (offsets_buffer 1 [0, 1, 2, 3, 4, 5])), emit (Retain 1) enc_state0) \<and>
   index (Buffers (Data_of (offsets_array 3))) 1 = Ok (Some (offsets_buffer 1 [0, 1, 2, 3, 4, 5])) \<and>
   getZeroBasedValueOffsets enc_state0 (offsets_array 3) =
     (Fail (Panic (NotImplementedOffset 3)), enc_state0)"
proof -
  have h0: "index (Buffers (Data_of (offsets_array 0))) 1 = Ok (Some (offsets_buffer 1 [0, 1, 2, 3, 4, 5]))"
    by (simp add: offsets_array_def index_def)
  have h3: "index (Buffers (Data_of (offsets_array 3))) 1 = Ok (Some (offsets_buffer 1 [0, 1, 2, 3, 4, 5]))"
    by (simp add: offsets_array_def index_def)
  show ?thesis
    using h0 h3 getZeroBasedValueOffsets_spec [OF h0, of enc_state0]
      getZeroBasedValueOffsets_spec [OF h3, of enc_state0]
    by (simp add: offsets_array_def offsets_buffer_def)
qed

text \<open>
  C6. After a successful \<^verbatim>\<open>Encode\<close> the body size of the payload is a multiple of 8 and
  is the sum of the lengths in the buffer metadata; there is one metadata entry per body
  buffer, its length the byte length of the buffer rounded up to the next multiple of 8
  (0 for a nil buffer), its offset the base offset plus the lengths of the entries before
  it. The alignment check of line 190 never fails: once the columns are visited,
  \<^verbatim>\<open>Encode\<close> succeeds.
\<close>

theorem Encode_body_size:
  assumes "Encode X st rec = (Ok u, st')"
  shows "p_size (pay st') mod 8 = 0 \<and>
     p_size (pay st') = sum_list (map bm_Len (enc_meta (enc st'))) \<and>
     length (enc_meta (enc st')) = length (p_body (pay st')) \<and>
     (\<forall>i < length (p_body (pay st')).
        bm_Len (enc_meta (enc st') ! i) =
          (case p_body (pay st') ! i of None \<Rightarrow> 0
           | Some b \<Rightarrow> CeilByte64 (int (length (Bytes b)))) \<and>
        bm_Len (enc_meta (enc st') ! i) mod 8 = 0 \<and>
        (case p_body (pay st') ! i of None \<Rightarrow> 0 | Some b \<Rightarrow> int (length (Bytes b))) \<le>
          bm_Len (enc_meta (enc st') ! i) \<and>
        bm_Len (enc_meta (enc st') ! i) <
          (case p_body (pay st') ! i of None \<Rightarrow> 0 | Some b \<Rightarrow> int (length (Bytes b))) + 8 \<and>
        bm_Offset (enc_meta (enc st') ! i) =
          enc_start (enc st') + sum_list (map bm_Len (take i (enc_meta (enc st'))))) \<and>
     (\<forall>st1. visit_columns X st (rec_Columns rec) = (Ok (), st1) \<longrightarrow>
        fst (Encode X st rec) = Ok ())"
proof -
  from Encode_Ok [OF assms] obtain st1 where
    h: "visit_columns X st (rec_Columns rec) = (Ok (), st1) \<and>
     p_body (pay st') = p_body (pay st1) \<and> enc_start (enc st') = enc_start (enc st1) \<and>
     enc_meta (enc st') = fst (buffer_metadata (enc_start (enc st1)) (p_body (pay st1))) \<and>
     p_size (pay st') =
       snd (buffer_metadata (enc_start (enc st1)) (p_body (pay st1))) - enc_start (enc st1)"
    ..
  from h have b: "p_body (pay st') = p_body (pay st1)"
    and s: "enc_start (enc st') = enc_start (enc st1)"
    and m: "enc_meta (enc st') = fst (buffer_metadata (enc_start (enc st1)) (p_body (pay st1)))"
    and z: "p_size (pay st') =
          snd (buffer_metadata (enc_start (enc st1)) (p_body (pay st1))) - enc_start (enc st1)"
    by simp_all
  have sz: "p_size (pay st') = sum_list (map bm_Len (enc_meta (enc st')))"
    using z m buffer_metadata_final [of "enc_start (enc st1)" "p_body (pay st1)"] by simp
  have al: "p_size (pay st') mod 8 = 0"
    using sz m buffer_metadata_aligned [of "enc_start (enc st1)" "p_body (pay st1)"] by simp
  have len: "length (enc_meta (enc st')) = length (p_body (pay st'))"
    using m b buffer_metadata_length [of "enc_start (enc st1)" "p_body (pay st1)"] by simp
  have nth: "\<forall>i < length (p_body (pay st')).
        bm_Len (enc_meta (enc st') ! i) = padded_size (p_body (pay st') ! i) \<and>
        bm_Offset (enc_meta (enc st') ! i) =
          enc_start (enc st') + sum_list (map bm_Len (take i (enc_meta (enc st'))))"
    using buffer_metadata_nth [of _ "p_body (pay st1)" "enc_start (enc st1)"] m b s
    by simp
  have pad: "padded_size buf =
        (case buf of None \<Rightarrow> 0 | Some b \<Rightarrow> CeilByte64 (int (length (Bytes b))))"
      "padded_size buf mod 8 = 0"
      "(case buf of None \<Rightarrow> 0 | Some b \<Rightarrow> int (length (Bytes b))) \<le> padded_size buf"
      "padded_size buf < (case buf of None \<Rightarrow> 0 | Some b \<Rightarrow> int (length (Bytes b))) + 8"
    for buf
    by (cases buf; simp add: padded_size_def CeilByte64_props)+
  have each: "\<forall>i < length (p_body (pay st')).
        bm_Len (enc_meta (enc st') ! i) =
          (case p_body (pay st') ! i of None \<Rightarrow> 0
           | Some b \<Rightarrow> CeilByte64 (int (length (Bytes b)))) \<and>
        bm_Len (enc_meta (enc st') ! i) mod 8 = 0 \<and>
        (case p_body (pay st') ! i of None \<Rightarrow> 0 | Some b \<Rightarrow> int (length (Bytes b))) \<le>
          bm_Len (enc_meta (enc st') ! i) \<and>
        bm_Len (enc_meta (enc st') ! i) <
          (case p_body (pay st') ! i of None \<Rightarrow> 0 | Some b \<Rightarrow> int (length (Bytes b))) + 8 \<and>
        bm_Offset (enc_meta (enc st') ! i) =
          enc_start (enc st') + sum_list (map bm_Len (take i (enc_meta (enc st'))))"
  proof (intro allI impI)
    fix i
    assume i: "i < length (p_body (pay st'))"
    from nth i have l: "bm_Len (enc_meta (enc st') ! i) = padded_size (p_body (pay st') ! i)"
      and o: "bm_Offset (enc_meta (enc st') ! i) =
          enc_start (enc st') + sum_list (map bm_Len (take i (enc_meta (enc st'))))"
      by simp_all
    show "bm_Len (enc_meta (enc st') ! i) =
          (case p_body (pay st') ! i of None \<Rightarrow> 0
           | Some b \<Rightarrow> CeilByte64 (int (length (Bytes b)))) \<and>
        bm_Len (enc_meta (enc st') ! i) mod 8 = 0 \<and>
        (case p_body (pay st') ! i of None \<Rightarrow> 0 | Some b \<Rightarrow> int (length (Bytes b))) \<le>
          bm_Len (enc_meta (enc st') ! i) \<and>
        bm_Len (enc_meta (enc st') ! i) <
          (case p_body (pay st') ! i of None \<Rightarrow> 0 | Some b \<Rightarrow> int (length (Bytes b))) + 8 \<and>
        bm_Offset (enc_meta (enc st') ! i) =
          enc_start (enc st') + sum_list (map bm_Len (take i (enc_meta (enc st'))))"
      unfolding l using o pad(1,2,3,4) [of "p_body (pay st') ! i"] by (intro conjI) simp_all
  qed
  have tot: "\<forall>st1. visit_columns X st (rec_Columns rec) = (Ok (), st1) \<longrightarrow>
        fst (Encode X st rec) = Ok ()"
    using Encode_total by blast
  show ?thesis
    by (intro conjI al sz len each tot)
qed

theorem Encode_body_size_witness:
  "fst (Encode ext0 enc_state0 int32_record) = Ok () \<and>
   p_body (pay (snd (Encode ext0 enc_state0 int32_record))) = [None, Some (zeros 3 20)] \<and>
   enc_meta (enc (snd (Encode ext0 enc_state0 int32_record))) =
     [\<lparr>bm_Offset = 0, bm_Len = 0\<rparr>, \<lparr>bm_Offset = 0, bm_Len = 24\<rparr>] \<and>
   p_size (pay (snd (Encode ext0 enc_state0 int32_record))) = 24 \<and>
   p_size (pay (snd (Encode ext0 enc_state0 int32_record))) mod 8 = 0 \<and>
   p_size (pay (snd (Encode ext0 enc_state0 int32_record))) =
     sum_list (map bm_Len (enc_meta (enc (snd (Encode ext0 enc_state0 int32_record)))))"
proof -
  have f: "fst (Encode ext0 enc_state0 int32_record) = Ok ()"
    by (simp add: model_defs example_defs)
  have h: "Encode ext0 enc_state0 int32_record =
      (Ok (), snd (Encode ext0 enc_state0 int32_record))"
    using f by (metis prod.collapse)
  have v: "p_body (pay (snd (Encode ext0 enc_state0 int32_record))) = [None, Some (zeros 3 20)]"
    "enc_meta (enc (snd (Encode ext0 enc_state0 int32_record))) =
     [\<lparr>bm_Offset = 0, bm_Len = 0\<rparr>, \<lparr>bm_Offset = 0, bm_Len = 24\<rparr>]"
    "p_size (pay (snd (Encode ext0 enc_state0 int32_record))) = 24"
    by (simp_all add: model_defs example_defs)
  show ?thesis
    using f v Encode_body_size [OF h] by simp
qed



text \<open>
  C8. The claim has the first \<^verbatim>\<open>Close\<close> write the end-of-stream marker and make the
  writer unusable, and every later \<^verbatim>\<open>Close\<close> do nothing. \<^verbatim>\<open>w.pw\<close> is set to nil at
  line 87 only, after a \<^verbatim>\<open>Close\<close> of the payload writer that returned no error. On a sink
  that refuses its first write, the first \<^verbatim>\<open>Close\<close> returns the wrapped error, sends
  nothing and leaves \<^verbatim>\<open>w.pw\<close> set; the second \<^verbatim>\<open>Close\<close> is the one that writes the marker.
\<close>

theorem Close_after_failed_Close_counterexample:
  "Writer_Close ext1 (NewWriter (False, [1]) (Some [])) =
     (Fail (Err (Wrap (SinkError ''busy'') ''arrow/ipc: could not close payload writer'')),
      \<lparr>wr_sink = (True, [1]), wr_pw = Some \<lparr>sw_pos = 0\<rparr>, wr_started = False,
         wr_schema = Some []\<rparr>) \<and>
   Writer_Close ext1 (snd (Writer_Close ext1 (NewWriter (False, [1]) (Some [])))) =
     (Ok (),
      \<lparr>wr_sink = (True, [1, 0, 0, 0, 0]), wr_pw = None, wr_started = False,
         wr_schema = Some []\<rparr>)"
  by (simp add: Writer_Close_def swriter_Close_def swriter_Write_def NewWriter_def ext1_def
      flaky_Write_def)

text \<open>
  C8, amended. \<^verbatim>\<open>Close\<close> on a writer whose \<^verbatim>\<open>w.pw\<close> is nil returns nil and changes
  nothing. On a writer whose \<^verbatim>\<open>w.pw\<close> is set it writes \<^verbatim>\<open>kEOS\<close> to the sink. If the sink
  accepts the write, \<^verbatim>\<open>Close\<close> returns nil and sets \<^verbatim>\<open>w.pw\<close> to nil, and the next \<^verbatim>\<open>Close\<close>
  returns nil and changes nothing. If the sink returns an error, \<^verbatim>\<open>Close\<close> returns that
  error wrapped and \<^verbatim>\<open>w.pw\<close> stays set (with the count of bytes the sink reported added
  to its position), so that the next \<^verbatim>\<open>Close\<close> writes \<^verbatim>\<open>kEOS\<close> again.
\<close>

theorem Writer_Close_spec:
  "(wr_pw wr = None \<longrightarrow> Writer_Close X wr = (Ok (), wr)) \<and>
   (wr_pw wr = Some sw \<and> io_Write X (wr_sink wr) (kEOS X) = ((n, None), s') \<longrightarrow>
      Writer_Close X wr = (Ok (), wr\<lparr>wr_sink := s', wr_pw := None\<rparr>) \<and>
      Writer_Close X (snd (Writer_Close X wr)) = (Ok (), snd (Writer_Close X wr))) \<and>
   (wr_pw wr = Some sw \<and> io_Write X (wr_sink wr) (kEOS X) = ((n, Some err), s') \<longrightarrow>
      Writer_Close X wr =
        (Fail (Err (Wrap err ''arrow/ipc: could not close payload writer'')),
         wr\<lparr>wr_sink := s', wr_pw := Some (sw\<lparr>sw_pos := sw_pos sw + n\<rparr>)\<rparr>) \<and>
      (io_Write X s' (kEOS X) = ((m, None), s'') \<longrightarrow>
         Writer_Close X (snd (Writer_Close X wr)) =
           (Ok (), wr\<lparr>wr_sink := s'', wr_pw := None\<rparr>)))"
  by (auto simp: Writer_Close_def swriter_Close_def swriter_Write_def
      split: prod.splits option.splits)

theorem Writer_Close_witness:
  "wr_pw (NewWriter [1] (Some [])) = Some \<lparr>sw_pos = 0\<rparr> \<and>
   io_Write ext0 (wr_sink (NewWriter [1] (Some []))) (kEOS ext0) = ((4, None), [1, 0, 0, 0, 0]) \<and>
   Writer_Close ext0 (NewWriter [1] (Some [])) =
     (Ok (), \<lparr>wr_sink = [1, 0, 0, 0, 0], wr_pw = None, wr_started = False,
        wr_schema = Some []\<rparr>) \<and>
   wr_pw (snd (Writer_Close ext0 (NewWriter [1] (Some [])))) = None \<and>
   Writer_Close ext0 (snd (Writer_Close ext0 (NewWriter [1] (Some [])))) =
     (Ok (), \<lparr>wr_sink = [1, 0, 0, 0, 0], wr_pw = None, wr_started = False,
        wr_schema = Some []\<rparr>) \<and>
   wr_pw (NewWriter (False, [1]) (Some [])) = Some \<lparr>sw_pos = 0\<rparr> \<and>
   io_Write ext1 (wr_sink (NewWriter (False, [1]) (Some []))) (kEOS ext1) =
     ((0, Some (SinkError ''busy'')), (True, [1])) \<and>
   io_Write ext1 (True, [1]) (kEOS ext1) = ((4, None), (True, [1, 0, 0, 0, 0])) \<and>
   Writer_Close ext1 (NewWriter (False, [1]) (Some [])) =
     (Fail (Err (Wrap (SinkError ''busy'') ''arrow/ipc: could not close payload writer'')),
      \<lparr>wr_sink = (True, [1]), wr_pw = Some \<lparr>sw_pos = 0\<rparr>, wr_started = False,
         wr_schema = Some []\<rparr>) \<and>
   Writer_Close ext1 (snd (Writer_Close ext1 (NewWriter (False, [1]) (Some [])))) =
     (Ok (),
      \<lparr>wr_sink = (True, [1, 0, 0, 0, 0]), wr_pw = None, wr_started = False,
         wr_schema = Some []\<rparr>)"
proof -
  have a: "wr_pw (NewWriter [1] (Some [])) = Some \<lparr>sw_pos = 0\<rparr> \<and>
      io_Write ext0 (wr_sink (NewWriter [1] (Some []))) (kEOS ext0) =
        ((4, None), [1, 0, 0, 0, 0])"
    by (simp add: NewWriter_def ext0_def mem_Write_def)
  have b: "wr_pw (snd (Writer_Close ext0 (NewWriter [1] (Some [])))) = None"
    by (simp add: Writer_Close_def swriter_Close_def swriter_Write_def NewWriter_def ext0_def
        mem_Write_def)
  have c: "wr_pw (NewWriter (False, [1]) (Some [])) = Some \<lparr>sw_pos = 0\<rparr> \<and>
      io_Write ext1 (wr_sink (NewWriter (False, [1]) (Some []))) (kEOS ext1) =
        ((0, Some (SinkError ''busy'')), (True, [1]))"
    by (simp add: NewWriter_def ext1_def flaky_Write_def)
  have d: "io_Write ext1 (True, [1]) (kEOS ext1) = ((4, None), (True, [1, 0, 0, 0, 0]))"
    by (simp add: ext1_def flaky_Write_def)
  note t0 = Writer_Close_spec [where wr = "NewWriter [1] (Some [])" and X = ext0
      and sw = "\<lparr>sw_pos = 0\<rparr>" and n = 4 and s' = "[1, 0, 0, 0, 0]"]
  note t1 = Writer_Close_spec [where wr = "snd (Writer_Close ext0 (NewWriter [1] (Some [])))"
      and X = ext0]
  note t2 = Writer_Close_spec [where wr = "NewWriter (False, [1]) (Some [])" and X = ext1
      and sw = "\<lparr>sw_pos = 0\<rparr>" and n = 0 and err = "SinkError ''busy''"
      and s' = "(True, [1])" and m = 4 and s'' = "(True, [1, 0, 0, 0, 0])"]
  have e: "Writer_Close ext0 (NewWriter [1] (Some [])) =
      (Ok (), \<lparr>wr_sink = [1, 0, 0, 0, 0], wr_pw = None, wr_started = False,
         wr_schema = Some []\<rparr>)"
    using t0 a by (simp add: NewWriter_def)
  have f: "Writer_Close ext0 (snd (Writer_Close ext0 (NewWriter [1] (Some [])))) =
      (Ok (), \<lparr>wr_sink = [1, 0, 0, 0, 0], wr_pw = None, wr_started = False,
         wr_schema = Some []\<rparr>)"
    using t1 b e by simp
  have gh: "Writer_Close ext1 (NewWriter (False, [1]) (Some [])) =
        (Fail (Err (Wrap (SinkError ''busy'') ''arrow/ipc: could not close payload writer'')),
         (NewWriter (False, [1]) (Some []))\<lparr>wr_sink := (True, [1]),
            wr_pw := Some (\<lparr>sw_pos = 0\<rparr>\<lparr>sw_pos := sw_pos \<lparr>sw_pos = 0\<rparr> + 0\<rparr>)\<rparr>) \<and>
      Writer_Close ext1 (snd (Writer_Close ext1 (NewWriter (False, [1]) (Some [])))) =
        (Ok (), (NewWriter (False, [1]) (Some []))\<lparr>wr_sink := (True, [1, 0, 0, 0, 0]),
           wr_pw := None\<rparr>)"
    using t2 c d by blast
  have g: "Writer_Close ext1 (NewWriter (False, [1]) (Some [])) =
     (Fail (Err (Wrap (SinkError ''busy'') ''arrow/ipc: could not close payload writer'')),
      \<lparr>wr_sink = (True, [1]), wr_pw = Some \<lparr>sw_pos = 0\<rparr>, wr_started = False,
         wr_schema = Some []\<rparr>)"
    using conjunct1 [OF gh] by (simp add: NewWriter_def)
  have h: "Writer_Close ext1 (snd (Writer_Close ext1 (NewWriter (False, [1]) (Some [])))) =
     (Ok (),
      \<lparr>wr_sink = (True, [1, 0, 0, 0, 0]), wr_pw = None, wr_started = False,
         wr_schema = Some []\<rparr>)"
    using conjunct2 [OF gh] by (simp add: NewWriter_def)
  show ?thesis
    using a b c d e f g h by blast
qed

text \<open>
  C9. After a \<^verbatim>\<open>Close\<close> that succeeded, every \<^verbatim>\<open>Write\<close> fails (with an error, or with the
  nil dereference of \<^verbatim>\<open>w.pw.write\<close>), and the sink receives nothing.
\<close>

theorem Write_after_Close:
  assumes "Writer_Close X wr0 = (Ok u, wr)"
  shows "\<exists>f wr' tr'. Writer_Write X wr rec tr = (Fail f, wr', tr') \<and>
           wr_sink wr' = wr_sink wr \<and> wr_pw wr' = None"
proof -
  from assms have closed: "wr_pw wr = None"
    by (auto simp: Writer_Close_def split: option.splits prod.splits)
  obtain r wr1 tr1 where
    s: "(if \<not> wr_started wr then Writer_start X wr tr else (Ok (), wr, tr)) = (r, wr1, tr1)"
    using prod_cases3 by blast
  have keep: "wr_sink wr1 = wr_sink wr \<and> wr_pw wr1 = None"
    using s closed Writer_start_closed [OF closed, of X tr r wr1 tr1]
    by (auto split: if_splits)
  show ?thesis
    unfolding Writer_Write_def s using keep
    by (auto split: res.splits option.splits prod.splits)
qed

theorem Write_after_Close_witness:
  "Writer_Close ext0 started_writer =
     (Ok (), started_writer\<lparr>wr_sink := [16, 0, 0, 0, 0, 0, 0, 0], wr_pw := None\<rparr>) \<and>
   Writer_Write ext0 (started_writer\<lparr>wr_sink := [16, 0, 0, 0, 0, 0, 0, 0], wr_pw := None\<rparr>)
       int32_record [] =
     (Fail (Panic NilDereference),
      started_writer\<lparr>wr_sink := [16, 0, 0, 0, 0, 0, 0, 0], wr_pw := None\<rparr>,
      [Retain 3, Release 3]) \<and>
   (\<exists>f wr' tr'.
      Writer_Write ext0 (started_writer\<lparr>wr_sink := [16, 0, 0, 0, 0, 0, 0, 0], wr_pw := None\<rparr>)
        int32_record [] = (Fail f, wr', tr') \<and>
      wr_sink wr' = [16, 0, 0, 0, 0, 0, 0, 0] \<and> wr_pw wr' = None)"
proof -
  have h: "Writer_Close ext0 started_writer =
     (Ok (), started_writer\<lparr>wr_sink := [16, 0, 0, 0, 0, 0, 0, 0], wr_pw := None\<rparr>)"
    by (simp add: model_defs example_defs)
  have w: "Writer_Write ext0
       (started_writer\<lparr>wr_sink := [16, 0, 0, 0, 0, 0, 0, 0], wr_pw := None\<rparr>)
       int32_record [] =
     (Fail (Panic NilDereference),
      started_writer\<lparr>wr_sink := [16, 0, 0, 0, 0, 0, 0, 0], wr_pw := None\<rparr>,
      [Retain 3, Release 3])"
    by (simp add: model_defs example_defs)
  show ?thesis
    using h w Write_after_Close [OF h, of int32_record "[]"] by simp
qed

text \<open>
  C10. \<^verbatim>\<open>newTruncatedBitmap\<close> on a nil buffer never returns: the guard of line 402 does not
  apply, and the test of line 409 panics, with ``not implemented'' when the offset is
  nonzero and with the nil dereference of \<^verbatim>\<open>input.Len()\<close> when it is zero.
\<close>

theorem newTruncatedBitmap_nil:
  "newTruncatedBitmap X tr offset len None =
     (Fail (Panic (if offset \<noteq> 0 then NotImplemented else NilDereference)), tr)"
  by (simp add: newTruncatedBitmap_def Buffer_Len_def)

end
